theory Spec2Isabelle
  imports Main "HOL-Library.AList"
begin

section \<open>The request adapter of the admin front end\<close>

text \<open>
  This development embeds \<^verbatim>\<open>utils/request.js\<close> (both copies): \<^verbatim>\<open>parseJSON\<close>,
  \<^verbatim>\<open>checkStatus\<close>, \<^verbatim>\<open>checkTokenValidity\<close>, \<^verbatim>\<open>formatQueryParams\<close>,
  \<^verbatim>\<open>serverRestartWatcher\<close> and \<^verbatim>\<open>request\<close>. The browser and the host
  application (fetch, the token store, the lock signals, the window location) are explicit:
  a \<open>world\<close> is threaded through every function and records what was done, in order.
\<close>

subsection \<open>Values, responses and promises\<close>

datatype jsonval =
  JNull | JBool bool | JNum int | JStr string | JArr "jsonval list" | JObj "(string \<times> jsonval) list"

text \<open>
  What an asynchronous operation of the browser (a fetch, \<^verbatim>\<open>response.json()\<close>) does:
  its promise is fulfilled with a value, is rejected with a reason of the browser's, or
  never settles.
\<close>

datatype 'a outcome = Resolves 'a | Fails string | Hangs

text \<open>
  A response object. \<open>json\<close> is \<open>None\<close> when the object has no \<^verbatim>\<open>json\<close> method
  (\<^verbatim>\<open>response.json\<close> is falsy), and otherwise tells what the promise returned by
  \<^verbatim>\<open>response.json()\<close> does. \<open>payload\<close> is the attribute that the error path of
  \<^verbatim>\<open>checkStatus\<close> writes. Responses have no \<^verbatim>\<open>then\<close> attribute: they are not thenable,
  as the responses that fetch resolves with.
\<close>

record response =
  status :: int
  statusText :: string
  json :: "jsonval outcome option"
  payload :: "jsonval option"

text \<open>
  The values a promise of this module is rejected with, and the exceptions it throws:
  the \<^verbatim>\<open>Error\<close> built by \<^verbatim>\<open>checkStatus\<close> (its message and its
  \<^verbatim>\<open>response\<close> attribute), a \<^verbatim>\<open>TypeError\<close> of the language, and a reason that
  comes from the browser unchanged.
\<close>

datatype rejection =
  HttpError (message: string) (error_response: response)
  | TypeError string
  | External string

datatype 'a promise = Fulfilled 'a | Rejected rejection | Unsettled

definition settle :: "'a outcome \<Rightarrow> 'a promise" where
  "settle c = (case c of Resolves v \<Rightarrow> Fulfilled v | Fails x \<Rightarrow> Rejected (External x) | Hangs \<Rightarrow> Unsettled)"

text \<open>A function of the module returns a value or throws.\<close>

datatype 'a ret = Return 'a | Throw rejection

subsection \<open>Request descriptors\<close>

text \<open>
  A \<^verbatim>\<open>File\<close> with the \<^verbatim>\<open>caption\<close> attribute that the file input widget sets
  (\<^verbatim>\<open>files[current].caption = this.state.captions[current]\<close>, which is undefined where
  no caption was typed). An entry of a \<^verbatim>\<open>FormData\<close> is a file or a string.
\<close>

record file_object =
  file_name :: string
  caption :: "string option"

datatype form_value = FileValue file_object | StringValue string

type_synonym formdata = "(string \<times> form_value) list"

datatype body = Data jsonval | Form formdata

text \<open>
  The \<^verbatim>\<open>options\<close> object; \<open>None\<close> is an absent attribute. An object is the list of
  its entries in the order \<^verbatim>\<open>Object.keys\<close> enumerates them.
\<close>

record options =
  http_method :: "string option"
  headers :: "(string \<times> string) list option"
  body :: "body option"
  params :: "(string \<times> string) list option"
  mode :: "string option"

subsection \<open>The browser and the host application\<close>

datatype event =
  Fetch string options
  | Navigate string
  | ClearAppStorage
  | LockApp
  | UnlockApp
  | SetTimeout nat

text \<open>
  The state outside the module: the token store, the number of fetches issued so far,
  and the effects so far, oldest first.
\<close>

record world =
  token :: "string option"
  fetches :: nat
  trace :: "event list"

text \<open>
  What the module reads from its surroundings and never changes: the two base URLs of the
  global \<^verbatim>\<open>strapi\<close>, the network (what the \<open>n\<close>-th fetch issued does, given its URL and
  options), and the built-ins \<^verbatim>\<open>encodeURIComponent\<close> and \<^verbatim>\<open>JSON.stringify\<close>.
\<close>

record env =
  backendURL :: string
  remoteURL :: string
  net :: "nat \<Rightarrow> string \<Rightarrow> options \<Rightarrow> response outcome"
  encodeURIComponent :: "string \<Rightarrow> string"
  JSON_stringify :: "body \<Rightarrow> string"

definition fetch :: "env \<Rightarrow> world \<Rightarrow> string \<Rightarrow> options \<Rightarrow> world \<times> response outcome" where
  "fetch e w url opts =
     (w\<lparr>fetches := Suc (fetches w), trace := trace w @ [Fetch url opts]\<rparr>,
      net e (fetches w) url opts)"

text \<open>
  Modelled from the spec: the token store \<^verbatim>\<open>utils/auth\<close>, whose source is not part of
  the adapter: \<^verbatim>\<open>getToken() \<rightarrow> string|null\<close> reads the credential and
  \<^verbatim>\<open>clearAppStorage() \<rightarrow> void\<close> clears all stored authentication state.
\<close>

definition getToken :: "world \<Rightarrow> string option" where
  "getToken w = token w"

definition clearAppStorage :: "world \<Rightarrow> world" where
  "clearAppStorage w = w\<lparr>token := None, trace := trace w @ [ClearAppStorage]\<rparr>"

text \<open>Truthiness of a token: \<^verbatim>\<open>null\<close> and the empty string are falsy.\<close>

definition truthy :: "string option \<Rightarrow> bool" where
  "truthy t = (case t of None \<Rightarrow> False | Some s \<Rightarrow> s \<noteq> [])"

text \<open>A token inside a template literal.\<close>

definition interpolate :: "string option \<Rightarrow> string" where
  "interpolate t = (case t of None \<Rightarrow> ''null'' | Some s \<Rightarrow> s)"

definition navigate :: "string \<Rightarrow> world \<Rightarrow> world" where
  "navigate url w = w\<lparr>trace := trace w @ [Navigate url]\<rparr>"

definition lockApp :: "world \<Rightarrow> world" where
  "lockApp w = w\<lparr>trace := trace w @ [LockApp]\<rparr>"

definition unlockApp :: "world \<Rightarrow> world" where
  "unlockApp w = w\<lparr>trace := trace w @ [UnlockApp]\<rparr>"

definition setTimeout :: "nat \<Rightarrow> world \<Rightarrow> world" where
  "setTimeout ms w = w\<lparr>trace := trace w @ [SetTimeout ms]\<rparr>"

subsection \<open>parseJSON, checkStatus and checkTokenValidity\<close>

text \<open>
  \<^verbatim>\<open>return response.json ? response.json() : response;\<close>
  The result is the promise of the body, or the response object itself.
\<close>

datatype parse_result = Itself response | JsonPromise "jsonval promise"

definition parseJSON :: "response \<Rightarrow> parse_result" where
  "parseJSON r = (case json r of None \<Rightarrow> Itself r | Some c \<Rightarrow> JsonPromise (settle c))"

text \<open>
  What \<^verbatim>\<open>checkStatus\<close> hands back: a value returned at once (the response, or
  \<^verbatim>\<open>undefined\<close> as \<open>None\<close>), a promise, or an exception.
\<close>

datatype checked =
  Ret "response option"
  | RetPromise "response option promise"
  | Thrown rejection

text \<open>A promise takes up what a \<^verbatim>\<open>then\<close> callback returns or throws.\<close>

definition adopt :: "checked \<Rightarrow> response option promise" where
  "adopt c = (case c of Ret v \<Rightarrow> Fulfilled v | RetPromise p \<Rightarrow> p | Thrown x \<Rightarrow> Rejected x)"

definition userMeOptions :: "world \<Rightarrow> options" where
  "userMeOptions w =
     \<lparr>http_method = Some ''GET'',
      headers = Some [(''Content-Type'', ''application/json''),
                      (''Authorization'', ''Bearer '' @ interpolate (getToken w))],
      body = None, params = None, mode = None\<rparr>"

definition loginURL :: "env \<Rightarrow> string" where
  "loginURL e = remoteURL e @ ''/plugins/users-permissions/auth/login''"

function checkStatus :: "env \<Rightarrow> world \<Rightarrow> response \<Rightarrow> bool \<Rightarrow> world \<times> checked"
  and checkTokenValidity :: "env \<Rightarrow> world \<Rightarrow> response \<Rightarrow> world \<times> checked"
where
  "checkStatus e w r checkToken =
     (if 200 \<le> status r \<and> status r < 300 then (w, Ret (Some r))
      else if status r = 401 \<and> truthy (getToken w) \<and> checkToken then checkTokenValidity e w r
      else (case parseJSON r of
              Itself _ \<Rightarrow> (w, Thrown (TypeError ''parseJSON(...).then is not a function''))
            | JsonPromise p \<Rightarrow>
                (w, RetPromise
                      (case p of
                         Fulfilled responseFormatted \<Rightarrow>
                           Rejected (HttpError (statusText r) (r\<lparr>payload := Some responseFormatted\<rparr>))
                       | Rejected x \<Rightarrow> Rejected x
                       | Unsettled \<Rightarrow> Unsettled))))"
| "checkTokenValidity e w r =
     (if truthy (getToken w) then
        (case fetch e w (backendURL e @ ''/user/me'') (userMeOptions w) of
           (w1, Resolves _) \<Rightarrow>
             (case checkStatus e
                     (if status r = 401 then clearAppStorage (navigate (loginURL e) w1) else w1)
                     r False of
                (w2, c) \<Rightarrow> (w2, RetPromise (adopt c)))
         | (w1, Fails x) \<Rightarrow> (w1, RetPromise (Rejected (External x)))
         | (w1, Hangs) \<Rightarrow> (w1, RetPromise Unsettled))
      else (w, Ret None))"
  by pat_completeness auto
termination
  by (relation "measure (\<lambda>x. case x of
          Inl (e, w, r, checkToken) \<Rightarrow> (if checkToken then 2 else 0)
        | Inr (e, w, r) \<Rightarrow> 1)") auto

declare checkStatus.simps [simp del] checkTokenValidity.simps [simp del]

subsection \<open>formatQueryParams\<close>

text \<open>\<^verbatim>\<open>Array.prototype.join\<close> on strings.\<close>

fun join :: "string \<Rightarrow> string list \<Rightarrow> string" where
  "join sep [] = []"
| "join sep [x] = x"
| "join sep (x # y # ys) = x @ sep @ join sep (y # ys)"

definition Object_keys :: "(string \<times> 'v) list \<Rightarrow> string list" where
  "Object_keys obj = map fst obj"

text \<open>
  \<^verbatim>\<open>encodeURIComponent(params[k])\<close>; a key without a value reads \<^verbatim>\<open>undefined\<close>,
  which the built-in turns into text first.
\<close>

definition encodedValue :: "env \<Rightarrow> (string \<times> string) list \<Rightarrow> string \<Rightarrow> string" where
  "encodedValue e obj k =
     encodeURIComponent e (case map_of obj k of Some v \<Rightarrow> v | None \<Rightarrow> ''undefined'')"

definition formatQueryParams :: "env \<Rightarrow> (string \<times> string) list \<Rightarrow> string" where
  "formatQueryParams e ps =
     join ''&'' (map (\<lambda>k. encodeURIComponent e k @ ''='' @ encodedValue e ps k) (Object_keys ps))"

subsection \<open>serverRestartWatcher\<close>

definition healthOptions :: options where
  "healthOptions =
     \<lparr>http_method = Some ''HEAD'',
      headers = Some [(''Content-Type'', ''application/json''), (''Keep-Alive'', ''false'')],
      body = None, params = None, mode = Some ''no-cors''\<rparr>"

text \<open>What the promise of \<^verbatim>\<open>request\<close> is fulfilled with: a parsed body, or a raw response.\<close>

datatype parsed = Body jsonval | Raw response

text \<open>
  The watcher polls until a poll resolves. It is a partial function: \<open>None\<close> is the run
  in which every poll fails, which goes on polling for ever.
\<close>

partial_function (option) serverRestartWatcher ::
  "env \<Rightarrow> world \<Rightarrow> parsed \<Rightarrow> (world \<times> parsed promise) option"
where
  "serverRestartWatcher e w response =
     (case fetch e w (backendURL e @ ''/_health'') healthOptions of
        (w1, Resolves _) \<Rightarrow> Some (unlockApp w1, Fulfilled response)
      | (w1, Fails _) \<Rightarrow> serverRestartWatcher e (setTimeout 100 w1) response
      | (w1, Hangs) \<Rightarrow> Some (w1, Unsettled))"

subsection \<open>request\<close>

text \<open>
  \<^verbatim>\<open>Object.assign(target, source)\<close>: each entry of the source is written to the target,
  in place where the key exists and at the end otherwise.
\<close>

definition Object_assign :: "(string \<times> 'v) list \<Rightarrow> (string \<times> 'v) list \<Rightarrow> (string \<times> 'v) list" where
  "Object_assign target source = fold (\<lambda>(k, v) t. AList.update k v t) source target"

definition startsWith :: "string \<Rightarrow> char \<Rightarrow> bool" where
  "startsWith s c = (case s of [] \<Rightarrow> False | x # _ \<Rightarrow> x = c)"

text \<open>
  \<^verbatim>\<open>if (!options.headers) options.headers = Object.assign({'Content-Type': ...},
  options.headers, {'X-Forwarded-Host': 'strapi'})\<close>: the default headers, set only where
  \<^verbatim>\<open>options.headers\<close> is absent, so that the middle argument adds nothing.
\<close>

definition setHeaders :: "options \<Rightarrow> options" where
  "setHeaders opts =
     (case headers opts of
        None \<Rightarrow>
          opts\<lparr>headers :=
            Some (Object_assign (Object_assign [(''Content-Type'', ''application/json'')] [])
                    [(''X-Forwarded-Host'', ''strapi'')])\<rparr>
      | Some _ \<Rightarrow> opts)"

text \<open>
  \<^verbatim>\<open>if (token) options.headers = Object.assign({'Authorization': `Bearer ${token}`},
  options.headers)\<close>: the bearer credential is the target, the headers so far the source.
\<close>

definition setAuthorization :: "world \<Rightarrow> options \<Rightarrow> options" where
  "setAuthorization w opts =
     (if truthy (getToken w) then
        opts\<lparr>headers :=
          Some (Object_assign [(''Authorization'', ''Bearer '' @ interpolate (getToken w))]
                  (case headers opts of None \<Rightarrow> [] | Some h \<Rightarrow> h))\<rparr>
      else opts)"

text \<open>
  \<^verbatim>\<open>url = _.startsWith(url, '/') ? `${strapi.backendURL}${url}` : url\<close>, then the
  query string where \<^verbatim>\<open>options.params\<close> is present.
\<close>

definition requestURL :: "env \<Rightarrow> string \<Rightarrow> options \<Rightarrow> string" where
  "requestURL e url opts =
     (let url1 = (if startsWith url (CHR ''/'') then backendURL e @ url else url)
      in case params opts of
           None \<Rightarrow> url1
         | Some ps \<Rightarrow> url1 @ ''?'' @ formatQueryParams e ps)"

text \<open>Truthiness of \<^verbatim>\<open>options.body\<close>.\<close>

fun truthy_json :: "jsonval \<Rightarrow> bool" where
  "truthy_json JNull = False"
| "truthy_json (JBool b) = b"
| "truthy_json (JNum n) = (n \<noteq> 0)"
| "truthy_json (JStr s) = (s \<noteq> [])"
| "truthy_json (JArr _) = True"
| "truthy_json (JObj _) = True"

definition truthy_body :: "body option \<Rightarrow> bool" where
  "truthy_body b = (case b of None \<Rightarrow> False | Some (Data j) \<Rightarrow> truthy_json j | Some (Form _) \<Rightarrow> True)"

text \<open>The \<^verbatim>\<open>FormData\<close> operations used, and the conversion \<^verbatim>\<open>append\<close> applies to a value that is not a file.\<close>

definition getAll :: "formdata \<Rightarrow> string \<Rightarrow> form_value list" where
  "getAll fd field = map snd (filter (\<lambda>entry. fst entry = field) fd)"

definition append :: "formdata \<Rightarrow> string \<Rightarrow> form_value \<Rightarrow> formdata" where
  "append fd field v = fd @ [(field, v)]"

definition USVString :: "string option \<Rightarrow> string" where
  "USVString v = (case v of None \<Rightarrow> ''undefined'' | Some s \<Rightarrow> s)"

text \<open>\<^verbatim>\<open>Array.from(new Set(xs))\<close>: the first occurrence of each element, in order.\<close>

definition uniq :: "'a list \<Rightarrow> 'a list" where
  "uniq xs = fold (\<lambda>x seen. if x \<in> set seen then seen else seen @ [x]) xs []"

definition fileFields :: "formdata \<Rightarrow> string list" where
  "fileFields fd = map fst (filter (\<lambda>field. case snd field of FileValue _ \<Rightarrow> True | StringValue _ \<Rightarrow> False) fd)"

text \<open>
  The loops of the version of \<^verbatim>\<open>request\<close> that adds the captions:
  \<^verbatim>\<open>for (const fileEntry of options.body.getAll(field))
    if (fileEntry instanceof File) options.body.append(`${field}Captions`, fileEntry.caption);\<close>
\<close>

definition appendCaptions :: "string \<Rightarrow> form_value list \<Rightarrow> formdata \<Rightarrow> formdata" where
  "appendCaptions field entries fd =
     fold (\<lambda>fileEntry b.
             case fileEntry of
               FileValue f \<Rightarrow> append b (field @ ''Captions'') (StringValue (USVString (caption f)))
             | StringValue _ \<Rightarrow> b)
          entries fd"

definition addCaptions :: "formdata \<Rightarrow> formdata" where
  "addCaptions fd = fold (\<lambda>field b. appendCaptions field (getAll b field) b) (uniq (fileFields fd)) fd"

text \<open>
  The same loops in the copy of the helper plugin: each entry and its caption are pushed
  to a local array \<^verbatim>\<open>files\<close> that is dropped (the write to the body is commented out),
  so the body stays as it is. The copy then prints the body on the console, which is not
  part of the model.
\<close>

definition collectCaptions :: "formdata \<Rightarrow> formdata" where
  "collectCaptions fd = fold (\<lambda>field b. b) (uniq (fileFields fd)) fd"

text \<open>
  The body. With \<^verbatim>\<open>stringify\<close> a truthy body becomes its JSON text. Without,
  the entries of a truthy body are read: of a \<^verbatim>\<open>FormData\<close>, or of an array (pairs of
  an index and an element, never a file); any other truthy value has no \<^verbatim>\<open>entries\<close>
  method and the call throws.
\<close>

definition requestBody :: "(formdata \<Rightarrow> formdata) \<Rightarrow> env \<Rightarrow> bool \<Rightarrow> options \<Rightarrow> options ret" where
  "requestBody captions e stringify opts =
     (if truthy_body (body opts) \<and> stringify then
        (case body opts of
           Some b \<Rightarrow> Return (opts\<lparr>body := Some (Data (JStr (JSON_stringify e b)))\<rparr>)
         | None \<Rightarrow> Return opts)
      else if truthy_body (body opts) then
        (case body opts of
           Some (Form fd) \<Rightarrow> Return (opts\<lparr>body := Some (Form (captions fd))\<rparr>)
         | Some (Data (JArr xs)) \<Rightarrow> Return opts
         | Some (Data _) \<Rightarrow> Throw (TypeError ''options.body.entries is not a function'')
         | None \<Rightarrow> Return opts)
      else Return opts)"

text \<open>
  The promise chain \<^verbatim>\<open>.then(checkStatus).then(parseJSON).then(...)\<close> on the promise of
  the fetch.
\<close>

definition parsedPromise :: "response \<Rightarrow> parsed promise" where
  "parsedPromise r =
     (case parseJSON r of
        Itself r' \<Rightarrow> Fulfilled (Raw r')
      | JsonPromise p \<Rightarrow>
          (case p of Fulfilled b \<Rightarrow> Fulfilled (Body b) | Rejected x \<Rightarrow> Rejected x | Unsettled \<Rightarrow> Unsettled))"

definition responseChain ::
  "env \<Rightarrow> world \<Rightarrow> response outcome \<Rightarrow> bool \<Rightarrow> (world \<times> parsed promise) option"
where
  "responseChain e w fetched shouldWatchServerRestart =
     (case fetched of
        Fails x \<Rightarrow> Some (w, Rejected (External x))
      | Hangs \<Rightarrow> Some (w, Unsettled)
      | Resolves r \<Rightarrow>
          (case checkStatus e w r True of
             (w1, c) \<Rightarrow>
               (case adopt c of
                  Rejected x \<Rightarrow> Some (w1, Rejected x)
                | Unsettled \<Rightarrow> Some (w1, Unsettled)
                | Fulfilled None \<Rightarrow>
                    Some (w1, Rejected (TypeError ''Cannot read property json of undefined''))
                | Fulfilled (Some r') \<Rightarrow>
                    (case parsedPromise r' of
                       Rejected x \<Rightarrow> Some (w1, Rejected x)
                     | Unsettled \<Rightarrow> Some (w1, Unsettled)
                     | Fulfilled response \<Rightarrow>
                         if shouldWatchServerRestart
                         then serverRestartWatcher e (lockApp w1) response
                         else Some (w1, Fulfilled response)))))"

text \<open>
  What \<^verbatim>\<open>request\<close> hands to fetch: the URL and the options after the steps
  above, unless reading the body throws.
\<close>

definition dispatched ::
  "(formdata \<Rightarrow> formdata) \<Rightarrow> env \<Rightarrow> world \<Rightarrow> string \<Rightarrow> options \<Rightarrow> bool \<Rightarrow> (string \<times> options) ret"
where
  "dispatched captions e w url opts stringify =
     (let opts1 = setAuthorization w (setHeaders opts)
      in case requestBody captions e stringify opts1 of
           Throw x \<Rightarrow> Throw x
         | Return opts2 \<Rightarrow> Return (requestURL e url opts1, opts2))"

text \<open>
  \<^verbatim>\<open>request\<close>. The repository holds two copies of the file, which differ in the loops
  over the body only; the loops are the parameter \<open>captions\<close>.
\<close>

definition request ::
  "(formdata \<Rightarrow> formdata) \<Rightarrow> env \<Rightarrow> world \<Rightarrow> string \<Rightarrow> options \<Rightarrow> bool \<Rightarrow> bool
     \<Rightarrow> (world \<times> parsed promise ret) option"
where
  "request captions e w url opts shouldWatchServerRestart stringify =
     (case dispatched captions e w url opts stringify of
        Throw x \<Rightarrow> Some (w, Throw x)
      | Return (url', opts') \<Rightarrow>
          (case fetch e w url' opts' of
             (w1, fetched) \<Rightarrow>
               map_option (\<lambda>(w2, p). (w2, Return p))
                 (responseChain e w1 fetched shouldWatchServerRestart)))"

text \<open>
  The copy that adds the captions, and the copy under
  \<^verbatim>\<open>packages/strapi-helper-plugin\<close>, whose loops leave the body as it is.
\<close>

definition request_captions ::
  "env \<Rightarrow> world \<Rightarrow> string \<Rightarrow> options \<Rightarrow> bool \<Rightarrow> bool \<Rightarrow> (world \<times> parsed promise ret) option"
where
  "request_captions = request addCaptions"

definition request_helper_plugin ::
  "env \<Rightarrow> world \<Rightarrow> string \<Rightarrow> options \<Rightarrow> bool \<Rightarrow> bool \<Rightarrow> (world \<times> parsed promise ret) option"
where
  "request_helper_plugin = request collectCaptions"

subsection \<open>Notions used in the statements\<close>

text \<open>
  The entries that the caption loop adds for a field, given the entries it reads: one
  for each file, named after the field, with the caption as a string.
\<close>

definition captionEntries :: "string \<Rightarrow> form_value list \<Rightarrow> formdata" where
  "captionEntries field entries =
     [(field @ ''Captions'', StringValue (USVString (caption f))). FileValue f \<leftarrow> entries]"

definition strings_only :: "formdata \<Rightarrow> bool" where
  "strings_only xs = list_all (\<lambda>entry. case snd entry of FileValue _ \<Rightarrow> False | StringValue _ \<Rightarrow> True) xs"

subsection \<open>Example surroundings\<close>

text \<open>
  A backend that answers the \<open>n\<close>-th fetch with \<open>answers n\<close> whatever is asked, a
  world in which nothing has happened yet, and a response with a given status and body.
\<close>

definition noOptions :: options where
  "noOptions = \<lparr>http_method = None, headers = None, body = None, params = None, mode = None\<rparr>"

definition exampleEnv :: "(nat \<Rightarrow> response outcome) \<Rightarrow> env" where
  "exampleEnv answers =
     \<lparr>backendURL = ''http://localhost:1337'', remoteURL = ''http://localhost:4000'',
      net = (\<lambda>n url opts. answers n),
      encodeURIComponent = (\<lambda>s. s), JSON_stringify = (\<lambda>b. ''{}'')\<rparr>"

definition always :: "response outcome \<Rightarrow> nat \<Rightarrow> response outcome" where
  "always answer n = answer"

definition freshWorld :: "string option \<Rightarrow> world" where
  "freshWorld t = \<lparr>token = t, fetches = 0, trace = []\<rparr>"

definition exampleResponse :: "int \<Rightarrow> string \<Rightarrow> jsonval outcome option \<Rightarrow> response" where
  "exampleResponse code text j = \<lparr>status = code, statusText = text, json = j, payload = None\<rparr>"

section \<open>Properties\<close>

lemma always_apply [simp]: "always answer n = answer"
  by (simp add: always_def)

subsection \<open>The status check\<close>

lemma checkStatus_passes:
  "200 \<le> status r \<Longrightarrow> status r < 300 \<Longrightarrow> checkStatus e w r checkToken = (w, Ret (Some r))"
  by (simp add: checkStatus.simps)

lemma checkStatus_generic:
  assumes "\<not> (200 \<le> status r \<and> status r < 300)"
    and "\<not> (status r = 401 \<and> truthy (getToken w) \<and> checkToken)"
  shows "checkStatus e w r checkToken =
     (case json r of
        None \<Rightarrow> (w, Thrown (TypeError ''parseJSON(...).then is not a function''))
      | Some (Resolves b) \<Rightarrow>
          (w, RetPromise (Rejected (HttpError (statusText r) (r\<lparr>payload := Some b\<rparr>))))
      | Some (Fails x) \<Rightarrow> (w, RetPromise (Rejected (External x)))
      | Some Hangs \<Rightarrow> (w, RetPromise Unsettled))"
  using assms
  by (auto simp add: checkStatus.simps parseJSON_def settle_def split: option.splits outcome.splits)

lemma request_unfold:
  assumes "dispatched captions e w url opts stringify = Return (url', opts')"
  shows "request captions e w url opts sw stringify =
     map_option (\<lambda>(w2, p). (w2, Return p))
       (responseChain e (fst (fetch e w url' opts')) (net e (fetches w) url' opts') sw)"
  using assms by (simp add: request_def fetch_def)

lemma responseChain_passes:
  assumes "200 \<le> status r" "status r < 300"
  shows "responseChain e w (Resolves r) sw =
     (case parsedPromise r of
        Fulfilled v \<Rightarrow> if sw then serverRestartWatcher e (lockApp w) v else Some (w, Fulfilled v)
      | Rejected x \<Rightarrow> Some (w, Rejected x)
      | Unsettled \<Rightarrow> Some (w, Unsettled))"
  using assms by (simp add: responseChain_def checkStatus_passes adopt_def split: promise.splits)

lemma responseChain_generic:
  assumes "\<not> (200 \<le> status r \<and> status r < 300)"
    and "\<not> (status r = 401 \<and> truthy (getToken w))"
  shows "responseChain e w (Resolves r) sw =
     Some (w, case json r of
                None \<Rightarrow> Rejected (TypeError ''parseJSON(...).then is not a function'')
              | Some (Resolves b) \<Rightarrow> Rejected (HttpError (statusText r) (r\<lparr>payload := Some b\<rparr>))
              | Some (Fails x) \<Rightarrow> Rejected (External x)
              | Some Hangs \<Rightarrow> Unsettled)"
proof -
  have "\<not> (status r = 401 \<and> truthy (getToken w) \<and> True)" using assms(2) by simp
  from checkStatus_generic [OF assms(1) this, of e] show ?thesis
    by (simp add: responseChain_def adopt_def split: option.splits outcome.splits)
qed

lemma dispatched_noOptions:
  "dispatched captions (exampleEnv answers) (freshWorld None) ''/users'' noOptions True =
     Return (''http://localhost:1337/users'',
             noOptions\<lparr>headers := Some [(''Content-Type'', ''application/json''), (''X-Forwarded-Host'', ''strapi'')]\<rparr>)"
  by (simp add: dispatched_def setHeaders_def setAuthorization_def requestBody_def requestURL_def
      noOptions_def exampleEnv_def freshWorld_def getToken_def truthy_def truthy_body_def
      Object_assign_def startsWith_def)

lemma request_noOptions:
  "request captions (exampleEnv answers) (freshWorld None) ''/users'' noOptions sw True =
     map_option (\<lambda>(w2, p). (w2, Return p))
       (responseChain (exampleEnv answers)
          (fst (fetch (exampleEnv answers) (freshWorld None) ''http://localhost:1337/users''
                 (noOptions\<lparr>headers := Some [(''Content-Type'', ''application/json''), (''X-Forwarded-Host'', ''strapi'')]\<rparr>)))
          (answers 0) sw)"
  by (simp add: request_unfold [OF dispatched_noOptions]) (simp add: exampleEnv_def freshWorld_def)

text \<open>
  C1, as the code has it. A response with a status in [200,300) comes back from
  \<^verbatim>\<open>checkStatus\<close> unchanged, and the promise of \<^verbatim>\<open>request\<close> (without the restart
  watch) is fulfilled with the parsed body when \<^verbatim>\<open>response.json()\<close> resolves, and with
  the response itself when it has no \<^verbatim>\<open>json\<close> method. A response with a status outside
  [200,300) that does not enter the revalidation of a 401 with a token, and whose
  \<^verbatim>\<open>json()\<close> resolves with a body, rejects the promise with an error whose message is
  the status text and whose response is the original one with that body as payload.
\<close>

theorem request_settles_by_status:
  assumes "dispatched captions e w url opts stringify = Return (url', opts')"
    and "net e (fetches w) url' opts' = Resolves r"
  shows "(200 \<le> status r \<and> status r < 300 \<longrightarrow>
            (\<forall>w' checkToken. checkStatus e w' r checkToken = (w', Ret (Some r))) \<and>
            (\<forall>b. json r = Some (Resolves b) \<longrightarrow>
               map_option snd (request captions e w url opts False stringify) = Some (Return (Fulfilled (Body b)))) \<and>
            (json r = None \<longrightarrow>
               map_option snd (request captions e w url opts False stringify) = Some (Return (Fulfilled (Raw r))))) \<and>
         (\<not> (200 \<le> status r \<and> status r < 300) \<and> \<not> (status r = 401 \<and> truthy (getToken w)) \<longrightarrow>
            (\<forall>b. json r = Some (Resolves b) \<longrightarrow>
               map_option snd (request captions e w url opts shouldWatchServerRestart stringify) =
                 Some (Return (Rejected (HttpError (statusText r) (r\<lparr>payload := Some b\<rparr>))))))"
proof -
  let ?w1 = "fst (fetch e w url' opts')"
  have tok: "getToken ?w1 = getToken w" by (simp add: fetch_def getToken_def)
  have req: "request captions e w url opts sw stringify =
      map_option (\<lambda>(w2, p). (w2, Return p)) (responseChain e ?w1 (Resolves r) sw)" for sw
    using request_unfold [OF assms(1)] assms(2) by simp
  show ?thesis
  proof (intro conjI impI allI)
    fix w' checkToken assume "200 \<le> status r \<and> status r < 300"
    then show "checkStatus e w' r checkToken = (w', Ret (Some r))"
      by (simp add: checkStatus_passes)
  next
    fix b assume "200 \<le> status r \<and> status r < 300" "json r = Some (Resolves b)"
    then show "map_option snd (request captions e w url opts False stringify) = Some (Return (Fulfilled (Body b)))"
      by (simp add: req responseChain_passes parsedPromise_def parseJSON_def settle_def)
  next
    assume "200 \<le> status r \<and> status r < 300" "json r = None"
    then show "map_option snd (request captions e w url opts False stringify) = Some (Return (Fulfilled (Raw r)))"
      by (simp add: req responseChain_passes parsedPromise_def parseJSON_def)
  next
    fix b
    assume a: "\<not> (200 \<le> status r \<and> status r < 300) \<and> \<not> (status r = 401 \<and> truthy (getToken w))"
      and j: "json r = Some (Resolves b)"
    from a have 1: "\<not> (200 \<le> status r \<and> status r < 300)"
      and 2: "\<not> (status r = 401 \<and> truthy (getToken ?w1))" by (simp_all add: tok)
    show "map_option snd (request captions e w url opts shouldWatchServerRestart stringify) =
        Some (Return (Rejected (HttpError (statusText r) (r\<lparr>payload := Some b\<rparr>))))"
      by (simp add: req responseChain_generic [OF 1 2] j)
  qed
qed

theorem request_settles_by_status_witness:
  "map_option snd
     (request_helper_plugin (exampleEnv (always (Resolves (exampleResponse 200 ''OK'' (Some (Resolves (JObj [(''id'', JNum 1)])))))))
        (freshWorld None) ''/users'' noOptions False True)
     = Some (Return (Fulfilled (Body (JObj [(''id'', JNum 1)]))))
   \<and> map_option snd
     (request_helper_plugin (exampleEnv (always (Resolves (exampleResponse 404 ''Not Found'' (Some (Resolves (JStr ''missing'')))))))
        (freshWorld None) ''/users'' noOptions False True)
     = Some (Return (Rejected (HttpError ''Not Found''
          \<lparr>status = 404, statusText = ''Not Found'', json = Some (Resolves (JStr ''missing'')),
           payload = Some (JStr ''missing'')\<rparr>)))"
proof -
  let ?ok = "exampleResponse 200 ''OK'' (Some (Resolves (JObj [(''id'', JNum 1)])))"
  let ?nf = "exampleResponse 404 ''Not Found'' (Some (Resolves (JStr ''missing'')))"
  have n1: "net (exampleEnv (always (Resolves ?ok))) (fetches (freshWorld None)) u os = Resolves ?ok" for u os
    by (simp add: exampleEnv_def)
  have n2: "net (exampleEnv (always (Resolves ?nf))) (fetches (freshWorld None)) u os = Resolves ?nf" for u os
    by (simp add: exampleEnv_def)
  from request_settles_by_status [OF dispatched_noOptions [of collectCaptions] n1, of False]
  have 1: "map_option snd (request_helper_plugin (exampleEnv (always (Resolves ?ok))) (freshWorld None) ''/users'' noOptions False True)
     = Some (Return (Fulfilled (Body (JObj [(''id'', JNum 1)]))))"
    by (simp add: exampleResponse_def request_helper_plugin_def)
  from request_settles_by_status [OF dispatched_noOptions [of collectCaptions] n2, of False]
  have 2: "map_option snd (request_helper_plugin (exampleEnv (always (Resolves ?nf))) (freshWorld None) ''/users'' noOptions False True)
     = Some (Return (Rejected (HttpError ''Not Found''
          \<lparr>status = 404, statusText = ''Not Found'', json = Some (Resolves (JStr ''missing'')),
           payload = Some (JStr ''missing'')\<rparr>)))"
    by (simp add: exampleResponse_def request_helper_plugin_def)
  from 1 2 show ?thesis by simp
qed

text \<open>
  C1 as it was stated fails where the body is not JSON: a 204 has no content, so its
  \<^verbatim>\<open>json()\<close> rejects and so does the promise of \<^verbatim>\<open>request\<close>; a 500 with an HTML
  page rejects with the parser's reason, not with the error that carries the status text.
\<close>

theorem request_parse_failure_counterexample:
  "map_option snd
     (request_helper_plugin (exampleEnv (always (Resolves (exampleResponse 204 ''No Content'' (Some (Fails ''SyntaxError: Unexpected end of JSON input''))))))
        (freshWorld None) ''/users'' noOptions False True)
     = Some (Return (Rejected (External ''SyntaxError: Unexpected end of JSON input'')))
   \<and> map_option snd
     (request_helper_plugin (exampleEnv (always (Resolves (exampleResponse 500 ''Internal Server Error'' (Some (Fails ''SyntaxError: Unexpected token < in JSON at position 0''))))))
        (freshWorld None) ''/users'' noOptions False True)
     = Some (Return (Rejected (External ''SyntaxError: Unexpected token < in JSON at position 0'')))"
  unfolding request_helper_plugin_def request_noOptions
  by (simp add: exampleResponse_def responseChain_passes responseChain_generic
      parsedPromise_def parseJSON_def settle_def fetch_def freshWorld_def getToken_def truthy_def)

lemma checkTokenValidity_resolved:
  assumes "truthy (getToken w)"
    and "net e (fetches w) (backendURL e @ ''/user/me'') (userMeOptions w) = Resolves u"
  shows "checkTokenValidity e w r =
     (case checkStatus e
             (if status r = 401
              then clearAppStorage (navigate (loginURL e) (fst (fetch e w (backendURL e @ ''/user/me'') (userMeOptions w))))
              else fst (fetch e w (backendURL e @ ''/user/me'') (userMeOptions w)))
             r False of
        (w2, c) \<Rightarrow> (w2, RetPromise (adopt c)))"
  using assms by (simp add: checkTokenValidity.simps fetch_def)

lemma revalidation_world:
  "clearAppStorage (navigate (loginURL e) (fst (fetch e w url opts))) =
     w\<lparr>token := None, fetches := Suc (fetches w),
       trace := trace w @ [Fetch url opts, Navigate (remoteURL e @ ''/plugins/users-permissions/auth/login''), ClearAppStorage]\<rparr>"
  by (simp add: clearAppStorage_def navigate_def fetch_def loginURL_def)

text \<open>
  C9. A response with a status outside [200,300) that does not enter the revalidation of
  a 401 with a token, and that has no \<^verbatim>\<open>json\<close> method: \<^verbatim>\<open>parseJSON\<close> hands the
  response object itself back, the error path of \<^verbatim>\<open>checkStatus\<close> calls
  \<^verbatim>\<open>.then\<close> on it, and, the object not being thenable, this throws a
  \<^verbatim>\<open>TypeError\<close>; no promise rejected with the error that carries the status text and
  the payload comes back.
\<close>

theorem checkStatus_without_json_throws:
  assumes "\<not> (200 \<le> status r \<and> status r < 300)"
    and "\<not> (status r = 401 \<and> truthy (getToken w) \<and> checkToken)"
    and "json r = None"
  shows "parseJSON r = Itself r \<and>
         checkStatus e w r checkToken = (w, Thrown (TypeError ''parseJSON(...).then is not a function'')) \<and>
         (\<forall>b. snd (checkStatus e w r checkToken) \<noteq>
                RetPromise (Rejected (HttpError (statusText r) (r\<lparr>payload := Some b\<rparr>))))"
  using checkStatus_generic [OF assms(1,2), of e] assms(3) by (simp add: parseJSON_def)

theorem checkStatus_without_json_throws_witness:
  "checkStatus (exampleEnv (always Hangs)) (freshWorld (Some ''jwt'')) (exampleResponse 404 ''Not Found'' None) True =
     (freshWorld (Some ''jwt''), Thrown (TypeError ''parseJSON(...).then is not a function''))"
  using checkStatus_without_json_throws
    [of "exampleResponse 404 ''Not Found'' None" "freshWorld (Some ''jwt'')" True "exampleEnv (always Hangs)"]
  by (simp add: exampleResponse_def)

lemma checkStatus_False_world: "fst (checkStatus e w r False) = w"
  by (simp add: checkStatus.simps parseJSON_def split: option.splits)

lemma checkTokenValidity_world:
  assumes "truthy (getToken w)"
    and "net e (fetches w) (backendURL e @ ''/user/me'') (userMeOptions w) = Resolves u"
    and "w2 = (if status r = 401
               then clearAppStorage (navigate (loginURL e) (fst (fetch e w (backendURL e @ ''/user/me'') (userMeOptions w))))
               else fst (fetch e w (backendURL e @ ''/user/me'') (userMeOptions w)))"
  shows "checkTokenValidity e w r = (w2, RetPromise (adopt (snd (checkStatus e w2 r False))))"
proof -
  obtain c where c: "checkStatus e w2 r False = (w2, c)"
    using checkStatus_False_world [of e w2 r] by (metis prod.collapse)
  have "checkTokenValidity e w r =
      (case checkStatus e w2 r False of (w3, c) \<Rightarrow> (w3, RetPromise (adopt c)))"
    unfolding assms(3) by (rule checkTokenValidity_resolved [OF assms(1,2)])
  then show ?thesis by (simp add: c)
qed

subsection \<open>Revalidation of the token\<close>

text \<open>
  C2, as the code has it. For a response with status 401, a token in the store and
  \<^verbatim>\<open>checkToken\<close> true, \<^verbatim>\<open>checkStatus\<close> issues a GET to
  \<^verbatim>\<open><backendURL>/user/me\<close> with the token as bearer credential. When that call
  resolves, the window is sent to \<^verbatim>\<open><remoteURL>/plugins/users-permissions/auth/login\<close>,
  the stored state is cleared, and the promise is the one of \<^verbatim>\<open>checkStatus\<close> called
  again with \<^verbatim>\<open>checkToken\<close> false: whenever \<^verbatim>\<open>json()\<close> of the response resolves
  with a body, it is rejected with the error that carries the status text and that body.
\<close>

theorem checkStatus_revalidates_401:
  assumes "status r = 401" and "token w = Some t" and "t \<noteq> []"
    and "net e (fetches w) (backendURL e @ ''/user/me'')
           \<lparr>http_method = Some ''GET'',
            headers = Some [(''Content-Type'', ''application/json''), (''Authorization'', ''Bearer '' @ t)],
            body = None, params = None, mode = None\<rparr> = Resolves u"
  shows "let w' = w\<lparr>token := None, fetches := Suc (fetches w),
                    trace := trace w @
                      [Fetch (backendURL e @ ''/user/me'')
                         \<lparr>http_method = Some ''GET'',
                          headers = Some [(''Content-Type'', ''application/json''), (''Authorization'', ''Bearer '' @ t)],
                          body = None, params = None, mode = None\<rparr>,
                       Navigate (remoteURL e @ ''/plugins/users-permissions/auth/login''),
                       ClearAppStorage]\<rparr>
         in checkStatus e w r True = (w', RetPromise (adopt (snd (checkStatus e w' r False)))) \<and>
            (\<forall>b. json r = Some (Resolves b) \<longrightarrow>
               checkStatus e w r True =
                 (w', RetPromise (Rejected (HttpError (statusText r) (r\<lparr>payload := Some b\<rparr>)))) \<and>
               responseChain e w (Resolves r) shouldWatchServerRestart =
                 Some (w', Rejected (HttpError (statusText r) (r\<lparr>payload := Some b\<rparr>))))"
proof -
  define os where "os = \<lparr>http_method = Some ''GET'',
            headers = Some [(''Content-Type'', ''application/json''), (''Authorization'', ''Bearer '' @ t)],
            body = None, params = None, mode = None\<rparr>"
  define w' where "w' = w\<lparr>token := None, fetches := Suc (fetches w),
                  trace := trace w @ [Fetch (backendURL e @ ''/user/me'') os,
                     Navigate (remoteURL e @ ''/plugins/users-permissions/auth/login''), ClearAppStorage]\<rparr>"
  have os: "userMeOptions w = os"
    using assms(2) by (simp add: userMeOptions_def getToken_def interpolate_def os_def)
  have tr: "truthy (getToken w)" using assms(2,3) by (simp add: truthy_def getToken_def)
  have n: "net e (fetches w) (backendURL e @ ''/user/me'') (userMeOptions w) = Resolves u"
    using assms(4) by (simp add: os os_def)
  have 1: "checkStatus e w r True = checkTokenValidity e w r"
    using assms(1) tr by (simp add: checkStatus.simps)
  have 2: "checkTokenValidity e w r = (w', RetPromise (adopt (snd (checkStatus e w' r False))))"
    by (rule checkTokenValidity_world [OF tr n]) (simp add: assms(1) revalidation_world os w'_def)
  have 3: "checkStatus e w' r False =
     (case json r of
        None \<Rightarrow> (w', Thrown (TypeError ''parseJSON(...).then is not a function''))
      | Some (Resolves b) \<Rightarrow>
          (w', RetPromise (Rejected (HttpError (statusText r) (r\<lparr>payload := Some b\<rparr>))))
      | Some (Fails x) \<Rightarrow> (w', RetPromise (Rejected (External x)))
      | Some Hangs \<Rightarrow> (w', RetPromise Unsettled))"
    by (rule checkStatus_generic) (simp_all add: assms(1))
  have 6: "json r = Some (Resolves b) \<Longrightarrow>
      checkStatus e w r True = (w', RetPromise (Rejected (HttpError (statusText r) (r\<lparr>payload := Some b\<rparr>))))" for b
    by (simp add: 1 2 3 adopt_def)
  have 7: "json r = Some (Resolves b) \<Longrightarrow>
      responseChain e w (Resolves r) sw = Some (w', Rejected (HttpError (statusText r) (r\<lparr>payload := Some b\<rparr>)))" for b sw
    by (simp add: responseChain_def 1 2 3 adopt_def)
  have "checkStatus e w r True = (w', RetPromise (adopt (snd (checkStatus e w' r False))))"
    by (simp add: 1 2)
  then show ?thesis
    unfolding Let_def w'_def [symmetric] os_def [symmetric] using 6 7 by simp
qed

theorem checkStatus_revalidates_401_witness:
  "responseChain (exampleEnv (always (Resolves (exampleResponse 200 ''OK'' (Some (Resolves JNull))))))
     (freshWorld (Some ''jwt''))
     (Resolves (exampleResponse 401 ''Unauthorized'' (Some (Resolves (JStr ''expired''))))) False =
   Some (\<lparr>token = None, fetches = 1,
          trace = [Fetch ''http://localhost:1337/user/me''
                     \<lparr>http_method = Some ''GET'',
                      headers = Some [(''Content-Type'', ''application/json''), (''Authorization'', ''Bearer jwt'')],
                      body = None, params = None, mode = None\<rparr>,
                   Navigate ''http://localhost:4000/plugins/users-permissions/auth/login'',
                   ClearAppStorage]\<rparr>,
         Rejected (HttpError ''Unauthorized''
           \<lparr>status = 401, statusText = ''Unauthorized'', json = Some (Resolves (JStr ''expired'')),
            payload = Some (JStr ''expired'')\<rparr>))"
  using checkStatus_revalidates_401
    [of "exampleResponse 401 ''Unauthorized'' (Some (Resolves (JStr ''expired'')))"
        "freshWorld (Some ''jwt'')" "''jwt''"
        "exampleEnv (always (Resolves (exampleResponse 200 ''OK'' (Some (Resolves JNull)))))"
        "exampleResponse 200 ''OK'' (Some (Resolves JNull))" False]
  by (simp add: exampleResponse_def exampleEnv_def freshWorld_def Let_def)

text \<open>
  C2 as it was stated fails for a 401 whose body is not JSON: the promise is rejected with
  the parser's reason, not with the error that carries the status text.
\<close>

theorem revalidation_parse_failure_counterexample:
  "responseChain (exampleEnv (always (Resolves (exampleResponse 200 ''OK'' (Some (Resolves JNull))))))
     (freshWorld (Some ''jwt''))
     (Resolves (exampleResponse 401 ''Unauthorized'' (Some (Fails ''SyntaxError: Unexpected token U in JSON at position 0'')))) False =
   Some (\<lparr>token = None, fetches = 1,
          trace = [Fetch ''http://localhost:1337/user/me''
                     \<lparr>http_method = Some ''GET'',
                      headers = Some [(''Content-Type'', ''application/json''), (''Authorization'', ''Bearer jwt'')],
                      body = None, params = None, mode = None\<rparr>,
                   Navigate ''http://localhost:4000/plugins/users-permissions/auth/login'',
                   ClearAppStorage]\<rparr>,
         Rejected (External ''SyntaxError: Unexpected token U in JSON at position 0''))"
  by (simp add: responseChain_def checkStatus.simps checkTokenValidity.simps exampleResponse_def
      exampleEnv_def freshWorld_def truthy_def getToken_def fetch_def userMeOptions_def interpolate_def
      clearAppStorage_def navigate_def loginURL_def parseJSON_def settle_def adopt_def)

text \<open>
  C3, as the code has it. The response that the call to the current-user endpoint resolves
  with is never looked at: for every resolution the status of the original response is
  checked again, the window is sent to the login URL and the stored state is cleared
  (when that status is 401), and \<^verbatim>\<open>checkStatus\<close> is called again with
  \<^verbatim>\<open>checkToken\<close> false. When the call is rejected none of this happens: the promise is
  rejected with the reason of the call.
\<close>

theorem checkTokenValidity_outcome:
  assumes "truthy (getToken w)"
  shows "(\<forall>u. net e (fetches w) (backendURL e @ ''/user/me'') (userMeOptions w) = Resolves u \<longrightarrow>
            (let w1 = w\<lparr>fetches := Suc (fetches w),
                        trace := trace w @ [Fetch (backendURL e @ ''/user/me'') (userMeOptions w)]\<rparr>;
                 w2 = (if status r = 401
                       then w1\<lparr>token := None,
                               trace := trace w1 @
                                 [Navigate (remoteURL e @ ''/plugins/users-permissions/auth/login''),
                                  ClearAppStorage]\<rparr>
                       else w1)
             in checkTokenValidity e w r = (w2, RetPromise (adopt (snd (checkStatus e w2 r False)))))) \<and>
         (\<forall>x. net e (fetches w) (backendURL e @ ''/user/me'') (userMeOptions w) = Fails x \<longrightarrow>
            checkTokenValidity e w r =
              (w\<lparr>fetches := Suc (fetches w),
                 trace := trace w @ [Fetch (backendURL e @ ''/user/me'') (userMeOptions w)]\<rparr>,
               RetPromise (Rejected (External x))))"
proof (intro conjI allI impI)
  fix u
  assume n: "net e (fetches w) (backendURL e @ ''/user/me'') (userMeOptions w) = Resolves u"
  show "let w1 = w\<lparr>fetches := Suc (fetches w),
                        trace := trace w @ [Fetch (backendURL e @ ''/user/me'') (userMeOptions w)]\<rparr>;
                 w2 = (if status r = 401
                       then w1\<lparr>token := None,
                               trace := trace w1 @
                                 [Navigate (remoteURL e @ ''/plugins/users-permissions/auth/login''),
                                  ClearAppStorage]\<rparr>
                       else w1)
             in checkTokenValidity e w r = (w2, RetPromise (adopt (snd (checkStatus e w2 r False))))"
    unfolding Let_def
    by (rule checkTokenValidity_world [OF assms n])
      (simp add: fetch_def clearAppStorage_def navigate_def loginURL_def)
next
  fix x
  assume "net e (fetches w) (backendURL e @ ''/user/me'') (userMeOptions w) = Fails x"
  then show "checkTokenValidity e w r =
              (w\<lparr>fetches := Suc (fetches w),
                 trace := trace w @ [Fetch (backendURL e @ ''/user/me'') (userMeOptions w)]\<rparr>,
               RetPromise (Rejected (External x)))"
    using assms by (simp add: checkTokenValidity.simps fetch_def)
qed

theorem checkTokenValidity_outcome_witness:
  "checkTokenValidity (exampleEnv (always (Resolves (exampleResponse 500 ''Internal Server Error'' None))))
     (freshWorld (Some ''jwt'')) (exampleResponse 401 ''Unauthorized'' (Some (Resolves (JStr ''expired'')))) =
   (\<lparr>token = None, fetches = 1,
     trace = [Fetch ''http://localhost:1337/user/me''
                \<lparr>http_method = Some ''GET'',
                 headers = Some [(''Content-Type'', ''application/json''), (''Authorization'', ''Bearer jwt'')],
                 body = None, params = None, mode = None\<rparr>,
              Navigate ''http://localhost:4000/plugins/users-permissions/auth/login'',
              ClearAppStorage]\<rparr>,
    RetPromise (Rejected (HttpError ''Unauthorized''
      \<lparr>status = 401, statusText = ''Unauthorized'', json = Some (Resolves (JStr ''expired'')),
       payload = Some (JStr ''expired'')\<rparr>)))"
  using checkTokenValidity_outcome
    [of "freshWorld (Some ''jwt'')"
        "exampleEnv (always (Resolves (exampleResponse 500 ''Internal Server Error'' None)))"
        "exampleResponse 401 ''Unauthorized'' (Some (Resolves (JStr ''expired'')))"]
  by (simp add: exampleResponse_def exampleEnv_def freshWorld_def Let_def truthy_def getToken_def
      userMeOptions_def interpolate_def checkStatus.simps parseJSON_def settle_def adopt_def)

text \<open>
  C3 as it was stated fails when the call to the current-user endpoint is rejected: the
  handler is attached with \<^verbatim>\<open>then\<close> only, so there is no navigation, the token stays
  in the store and \<^verbatim>\<open>checkStatus\<close> is not called again.
\<close>

theorem revalidation_rejected_counterexample:
  "checkStatus (exampleEnv (always (Fails ''TypeError: Failed to fetch'')))
     (freshWorld (Some ''jwt'')) (exampleResponse 401 ''Unauthorized'' (Some (Resolves (JStr ''expired'')))) True =
   (\<lparr>token = Some ''jwt'', fetches = 1,
     trace = [Fetch ''http://localhost:1337/user/me''
                \<lparr>http_method = Some ''GET'',
                 headers = Some [(''Content-Type'', ''application/json''), (''Authorization'', ''Bearer jwt'')],
                 body = None, params = None, mode = None\<rparr>]\<rparr>,
    RetPromise (Rejected (External ''TypeError: Failed to fetch'')))"
  by (simp add: checkStatus.simps checkTokenValidity.simps exampleResponse_def
      exampleEnv_def freshWorld_def truthy_def getToken_def fetch_def userMeOptions_def interpolate_def)


subsection \<open>The restart watch\<close>

lemma watcher_resolved:
  assumes "net e (fetches w) (backendURL e @ ''/_health'') healthOptions = Resolves h"
  shows "serverRestartWatcher e w response =
     Some (w\<lparr>fetches := Suc (fetches w),
             trace := trace w @ [Fetch (backendURL e @ ''/_health'') healthOptions, UnlockApp]\<rparr>,
           Fulfilled response)"
  using assms by (subst serverRestartWatcher.simps) (simp add: fetch_def unlockApp_def)

lemma watcher_failed:
  assumes "net e (fetches w) (backendURL e @ ''/_health'') healthOptions = Fails x"
  shows "serverRestartWatcher e w response =
     serverRestartWatcher e
       (w\<lparr>fetches := Suc (fetches w),
          trace := trace w @ [Fetch (backendURL e @ ''/_health'') healthOptions, SetTimeout 100]\<rparr>)
       response"
  using assms by (subst serverRestartWatcher.simps) (simp add: fetch_def setTimeout_def)

lemma watcher_polls:
  assumes "\<forall>i<n. \<exists>x. net e (fetches w + i) (backendURL e @ ''/_health'') healthOptions = Fails x"
    and "net e (fetches w + n) (backendURL e @ ''/_health'') healthOptions = Resolves h"
  shows "serverRestartWatcher e w response =
     Some (w\<lparr>fetches := fetches w + Suc n,
             trace := trace w @
               concat (replicate n [Fetch (backendURL e @ ''/_health'') healthOptions, SetTimeout 100]) @
               [Fetch (backendURL e @ ''/_health'') healthOptions, UnlockApp]\<rparr>,
           Fulfilled response)"
  using assms
proof (induction n arbitrary: w)
  case 0
  then show ?case using watcher_resolved [of e w h response] by simp
next
  case (Suc n)
  let ?w = "w\<lparr>fetches := Suc (fetches w),
          trace := trace w @ [Fetch (backendURL e @ ''/_health'') healthOptions, SetTimeout 100]\<rparr>"
  from Suc.prems(1) obtain x where
    x: "net e (fetches w) (backendURL e @ ''/_health'') healthOptions = Fails x"
    by (metis add.right_neutral zero_less_Suc)
  have a: "\<forall>i<n. \<exists>x. net e (fetches ?w + i) (backendURL e @ ''/_health'') healthOptions = Fails x"
    using Suc.prems(1) by (simp add: Suc_less_eq2) (metis Suc_mono add_Suc_right)
  have b: "net e (fetches ?w + n) (backendURL e @ ''/_health'') healthOptions = Resolves h"
    using Suc.prems(2) by simp
  show ?case
    by (simp add: watcher_failed [OF x] Suc.IH [OF a b])
qed

lemma watcher_diverges:
  assumes "\<forall>i. \<exists>x. net e (fetches w + i) (backendURL e @ ''/_health'') healthOptions = Fails x"
  shows "serverRestartWatcher e w response = None"
proof (rule ccontr)
  assume "serverRestartWatcher e w response \<noteq> None"
  then obtain y where y: "serverRestartWatcher e w response = Some y" by auto
  have "\<exists>i. \<forall>x. net e (fetches w + i) (backendURL e @ ''/_health'') healthOptions \<noteq> Fails x"
  proof (rule serverRestartWatcher.raw_induct
      [where P = "\<lambda>e w response y. \<exists>i. \<forall>x. net e (fetches w + i) (backendURL e @ ''/_health'') healthOptions \<noteq> Fails x",
        OF _ y])
    fix srw :: "env \<Rightarrow> world \<Rightarrow> parsed \<Rightarrow> (world \<times> parsed promise) option"
      and e w response y
    assume IH: "\<And>e w response y. srw e w response = Some y \<Longrightarrow>
        \<exists>i. \<forall>x. net e (fetches w + i) (backendURL e @ ''/_health'') healthOptions \<noteq> Fails x"
      and body: "(case fetch e w (backendURL e @ ''/_health'') healthOptions of
          (w1, Resolves x) \<Rightarrow> Some (unlockApp w1, Fulfilled response)
        | (w1, Fails x) \<Rightarrow> srw e (setTimeout 100 w1) response
        | (w1, Hangs) \<Rightarrow> Some (w1, Unsettled)) = Some y"
    show "\<exists>i. \<forall>x. net e (fetches w + i) (backendURL e @ ''/_health'') healthOptions \<noteq> Fails x"
    proof (cases "net e (fetches w) (backendURL e @ ''/_health'') healthOptions")
      case (Fails x)
      with body have "srw e
          (setTimeout 100 (fst (fetch e w (backendURL e @ ''/_health'') healthOptions))) response = Some y"
        by (simp add: fetch_def)
      from IH [OF this] obtain i where
        "\<forall>x. net e (Suc (fetches w) + i) (backendURL e @ ''/_health'') healthOptions \<noteq> Fails x"
        by (auto simp: setTimeout_def fetch_def)
      then show ?thesis by (intro exI [of _ "Suc i"]) simp
    qed (intro exI [of _ 0]; simp)+
  qed
  with assms show False by blast
qed


text \<open>
  C5. A call with \<^verbatim>\<open>shouldWatchServerRestart\<close> true whose fetch resolves with a
  status in [200,300) and whose body parses: \<^verbatim>\<open>lockApp\<close> is signalled, then
  \<^verbatim>\<open><backendURL>/_health\<close> is polled with HEAD, 100 ms after each failed poll, until a
  poll resolves; then \<^verbatim>\<open>unlockApp\<close> is signalled and the promise is fulfilled with the
  parsed response. Each signal is given once, the lock first, and no failure of a poll
  reaches the caller. Here \<open>n\<close> polls fail before one resolves.
\<close>

theorem request_restart_watch:
  assumes "dispatched captions e w url opts stringify = Return (url', opts')"
    and "net e (fetches w) url' opts' = Resolves r"
    and "200 \<le> status r" and "status r < 300"
    and "parsedPromise r = Fulfilled v"
    and "\<forall>i<n. \<exists>x. net e (Suc (fetches w) + i) (backendURL e @ ''/_health'') healthOptions = Fails x"
    and "net e (Suc (fetches w) + n) (backendURL e @ ''/_health'') healthOptions = Resolves h"
  shows "http_method healthOptions = Some ''HEAD'' \<and>
         request captions e w url opts True stringify =
           Some (w\<lparr>fetches := fetches w + n + 2,
                   trace := trace w @ [Fetch url' opts', LockApp] @
                     concat (replicate n [Fetch (backendURL e @ ''/_health'') healthOptions, SetTimeout 100]) @
                     [Fetch (backendURL e @ ''/_health'') healthOptions, UnlockApp]\<rparr>,
                 Return (Fulfilled v)) \<and>
         filter (\<lambda>ev. ev = LockApp \<or> ev = UnlockApp)
           ([Fetch url' opts', LockApp] @
            concat (replicate n [Fetch (backendURL e @ ''/_health'') healthOptions, SetTimeout 100]) @
            [Fetch (backendURL e @ ''/_health'') healthOptions, UnlockApp]) = [LockApp, UnlockApp]"
proof -
  let ?w1 = "lockApp (fst (fetch e w url' opts'))"
  have f: "fetches ?w1 = Suc (fetches w)" by (simp add: lockApp_def fetch_def)
  have a: "\<forall>i<n. \<exists>x. net e (fetches ?w1 + i) (backendURL e @ ''/_health'') healthOptions = Fails x"
    using assms(6) by (simp add: f)
  have b: "net e (fetches ?w1 + n) (backendURL e @ ''/_health'') healthOptions = Resolves h"
    using assms(7) by (simp add: f)
  have "request captions e w url opts True stringify =
      map_option (\<lambda>(w2, p). (w2, Return p)) (serverRestartWatcher e ?w1 v)"
    by (simp add: request_unfold [OF assms(1)] assms(2) responseChain_passes [OF assms(3,4)] assms(5))
  also have "\<dots> = Some (w\<lparr>fetches := fetches w + n + 2,
                   trace := trace w @ [Fetch url' opts', LockApp] @
                     concat (replicate n [Fetch (backendURL e @ ''/_health'') healthOptions, SetTimeout 100]) @
                     [Fetch (backendURL e @ ''/_health'') healthOptions, UnlockApp]\<rparr>,
                 Return (Fulfilled v))"
    by (simp add: watcher_polls [OF a b]) (simp add: lockApp_def fetch_def)
  finally have 1: "request captions e w url opts True stringify =
      Some (w\<lparr>fetches := fetches w + n + 2,
                   trace := trace w @ [Fetch url' opts', LockApp] @
                     concat (replicate n [Fetch (backendURL e @ ''/_health'') healthOptions, SetTimeout 100]) @
                     [Fetch (backendURL e @ ''/_health'') healthOptions, UnlockApp]\<rparr>,
                 Return (Fulfilled v))" .
  have 2: "filter (\<lambda>ev. ev = LockApp \<or> ev = UnlockApp)
      (concat (replicate n [Fetch u os, SetTimeout 100])) = []" for u os
    by (induction n) simp_all
  show ?thesis using 1 by (simp add: 2 healthOptions_def)
qed

theorem request_restart_watch_witness:
  "request_helper_plugin (exampleEnv (\<lambda>n. if n = 0 then Resolves (exampleResponse 200 ''OK'' (Some (Resolves (JBool True))))
                              else if n < 3 then Fails ''TypeError: Failed to fetch''
                              else Resolves (exampleResponse 0 [] None)))
     (freshWorld None) ''/users'' noOptions True True =
   Some (\<lparr>token = None, fetches = 4,
          trace = [Fetch ''http://localhost:1337/users''
                     (noOptions\<lparr>headers := Some [(''Content-Type'', ''application/json''), (''X-Forwarded-Host'', ''strapi'')]\<rparr>),
                   LockApp,
                   Fetch ''http://localhost:1337/_health'' healthOptions, SetTimeout 100,
                   Fetch ''http://localhost:1337/_health'' healthOptions, SetTimeout 100,
                   Fetch ''http://localhost:1337/_health'' healthOptions, UnlockApp]\<rparr>,
         Return (Fulfilled (Body (JBool True))))"
proof -
  let ?e = "exampleEnv (\<lambda>n. if n = 0 then Resolves (exampleResponse 200 ''OK'' (Some (Resolves (JBool True))))
                              else if n < 3 then Fails ''TypeError: Failed to fetch''
                              else Resolves (exampleResponse 0 [] None))"
  let ?r = "exampleResponse 200 ''OK'' (Some (Resolves (JBool True)))"
  have n: "net ?e (fetches (freshWorld None)) u os = Resolves ?r" for u os
    by (simp add: exampleEnv_def freshWorld_def)
  have s1: "200 \<le> status ?r" and s2: "status ?r < 300" by (simp_all add: exampleResponse_def)
  have p: "parsedPromise ?r = Fulfilled (Body (JBool True))"
    by (simp add: parsedPromise_def parseJSON_def settle_def exampleResponse_def)
  have a: "\<forall>i<2. \<exists>x. net ?e (Suc (fetches (freshWorld None)) + i) (backendURL ?e @ ''/_health'') healthOptions = Fails x"
    by (simp add: exampleEnv_def freshWorld_def)
  have b: "net ?e (Suc (fetches (freshWorld None)) + 2) (backendURL ?e @ ''/_health'') healthOptions
      = Resolves (exampleResponse 0 [] None)"
    by (simp add: exampleEnv_def freshWorld_def)
  have c: "concat (replicate 2 [x, y]) = [x, y, x, y]" for x y :: event
    by (simp add: numeral_2_eq_2)
  from request_restart_watch [OF dispatched_noOptions [of collectCaptions] n s1 s2 p a b]
  show ?thesis
    by (simp add: c request_helper_plugin_def) (simp add: exampleEnv_def freshWorld_def)
qed

text \<open>
  C10. The watcher never reads the response of the health check: whenever the poll
  resolves, whatever the status and body of the response \<open>h\<close> it resolves with,
  \<^verbatim>\<open>unlockApp\<close> is signalled and the promise is fulfilled with the original response.
\<close>

theorem watcher_ignores_health_response:
  assumes "net e (fetches w) (backendURL e @ ''/_health'') healthOptions = Resolves h"
  shows "serverRestartWatcher e w response =
     Some (w\<lparr>fetches := Suc (fetches w),
             trace := trace w @ [Fetch (backendURL e @ ''/_health'') healthOptions, UnlockApp]\<rparr>,
           Fulfilled response)"
  using assms by (rule watcher_resolved)

theorem watcher_ignores_health_response_witness:
  "serverRestartWatcher (exampleEnv (always (Resolves (exampleResponse 503 ''Service Unavailable'' None))))
     (freshWorld None) (Body (JStr ''saved'')) =
   Some (\<lparr>token = None, fetches = 1,
          trace = [Fetch ''http://localhost:1337/_health'' healthOptions, UnlockApp]\<rparr>,
         Fulfilled (Body (JStr ''saved'')))"
  using watcher_ignores_health_response
    [of "exampleEnv (always (Resolves (exampleResponse 503 ''Service Unavailable'' None)))"
        "freshWorld None" "exampleResponse 503 ''Service Unavailable'' None" "Body (JStr ''saved'')"]
  by (simp add: exampleEnv_def freshWorld_def)


subsection \<open>What is handed to fetch\<close>

lemma map_of_Object_assign:
  "distinct (map fst source) \<Longrightarrow>
     map_of (Object_assign target source) = map_of target ++ map_of source"
proof (induction source arbitrary: target)
  case Nil
  then show ?case by (simp add: Object_assign_def)
next
  case (Cons p source)
  obtain k v where p: "p = (k, v)" by (cases p)
  from Cons.prems have k: "k \<notin> dom (map_of source)" and d: "distinct (map fst source)"
    by (auto simp add: p dom_map_of_conv_image_fst)
  have "Object_assign target (p # source) = Object_assign (AList.update k v target) source"
    by (simp add: Object_assign_def p)
  moreover have "map_of (Object_assign (AList.update k v target) source) =
      map_of (AList.update k v target) ++ map_of source"
    by (rule Cons.IH [OF d])
  ultimately have "map_of (Object_assign target (p # source)) = (map_of target)(k \<mapsto> v) ++ map_of source"
    by (simp only: AList.update_conv')
  also have "\<dots> = map_of target ++ map_of (p # source)"
    using k by (auto simp add: p map_add_def fun_eq_iff split: option.splits)
  finally show ?case .
qed

lemma encodedValue_entry:
  assumes "distinct (map fst ps)" and "(k, v) \<in> set ps"
  shows "encodedValue e ps k = encodeURIComponent e v"
  using assms by (simp add: encodedValue_def)

lemma formatQueryParams_entries:
  assumes "distinct (map fst ps)"
  shows "formatQueryParams e ps =
     join ''&'' (map (\<lambda>(k, v). encodeURIComponent e k @ ''='' @ encodeURIComponent e v) ps)"
proof -
  have "map (\<lambda>k. encodeURIComponent e k @ ''='' @ encodedValue e ps k) (map fst ps) =
        map (\<lambda>(k, v). encodeURIComponent e k @ ''='' @ encodeURIComponent e v) ps"
    using encodedValue_entry [OF assms] by auto
  then show ?thesis by (simp only: formatQueryParams_def Object_keys_def)
qed

lemma requestBody_keeps:
  assumes "requestBody captions e stringify opts = Return opts'"
  shows "headers opts' = headers opts \<and> params opts' = params opts \<and>
         http_method opts' = http_method opts \<and> mode opts' = mode opts"
  using assms
  by (auto simp add: requestBody_def split: if_splits option.splits body.splits jsonval.splits)

lemma dispatched_Return:
  assumes "dispatched captions e w url opts stringify = Return (url', opts')"
  shows "url' = requestURL e url (setAuthorization w (setHeaders opts))"
    and "requestBody captions e stringify (setAuthorization w (setHeaders opts)) = Return opts'"
  using assms by (auto simp add: dispatched_def Let_def split: ret.splits)

lemma params_normalized: "params (setAuthorization w (setHeaders opts)) = params opts"
  by (simp add: setAuthorization_def setHeaders_def split: option.splits)

lemma body_normalized: "body (setAuthorization w (setHeaders opts)) = body opts"
  by (simp add: setAuthorization_def setHeaders_def split: option.splits)

lemma headers_normalized:
  "headers (setAuthorization w (setHeaders opts)) =
     (let h = (case headers opts of
                 None \<Rightarrow> [(''Content-Type'', ''application/json''), (''X-Forwarded-Host'', ''strapi'')]
               | Some h \<Rightarrow> h)
      in Some (if truthy (getToken w)
               then Object_assign [(''Authorization'', ''Bearer '' @ interpolate (getToken w))] h
               else h))"
  by (simp add: setAuthorization_def setHeaders_def Object_assign_def split: option.splits)

text \<open>
  C8. For a url that starts with \<^verbatim>\<open>/\<close> the URL handed to fetch is the backend URL
  followed by that path, and any other url is used as it is; where \<^verbatim>\<open>options.params\<close>
  is present the URL goes on with \<^verbatim>\<open>?\<close> and one \<^verbatim>\<open>key=value\<close> pair per entry, key and
  value passed through \<^verbatim>\<open>encodeURIComponent\<close>, the pairs joined by \<^verbatim>\<open>&\<close>. The
  entries of an object have distinct keys.
\<close>

theorem dispatched_url:
  assumes "dispatched captions e w url opts stringify = Return (url', opts')"
    and "\<forall>ps. params opts = Some ps \<longrightarrow> distinct (map fst ps)"
  shows "url' =
     (if startsWith url (CHR ''/'') then backendURL e @ url else url) @
     (case params opts of
        None \<Rightarrow> []
      | Some ps \<Rightarrow>
          ''?'' @ join ''&'' (map (\<lambda>(k, v). encodeURIComponent e k @ ''='' @ encodeURIComponent e v) ps))"
  using dispatched_Return(1) [OF assms(1)] assms(2)
  by (simp add: requestURL_def params_normalized formatQueryParams_entries split: option.splits)

theorem dispatched_url_witness:
  "dispatched collectCaptions (exampleEnv (always Hangs)) (freshWorld None) ''/users''
     (noOptions\<lparr>params := Some [(''_limit'', ''10''), (''_sort'', ''name'')]\<rparr>) True =
   Return (''http://localhost:1337/users?_limit=10&_sort=name'',
           noOptions\<lparr>headers := Some [(''Content-Type'', ''application/json''), (''X-Forwarded-Host'', ''strapi'')],
                     params := Some [(''_limit'', ''10''), (''_sort'', ''name'')]\<rparr>)"
proof -
  have d: "dispatched collectCaptions (exampleEnv (always Hangs)) (freshWorld None) ''/users''
     (noOptions\<lparr>params := Some [(''_limit'', ''10''), (''_sort'', ''name'')]\<rparr>) True =
   Return (requestURL (exampleEnv (always Hangs)) ''/users''
             (setAuthorization (freshWorld None) (setHeaders (noOptions\<lparr>params := Some [(''_limit'', ''10''), (''_sort'', ''name'')]\<rparr>))),
           noOptions\<lparr>headers := Some [(''Content-Type'', ''application/json''), (''X-Forwarded-Host'', ''strapi'')],
                     params := Some [(''_limit'', ''10''), (''_sort'', ''name'')]\<rparr>)"
    by (simp add: dispatched_def setHeaders_def setAuthorization_def requestBody_def
      noOptions_def freshWorld_def getToken_def truthy_def truthy_body_def Object_assign_def Let_def)
  from dispatched_url [OF d] show ?thesis
    by (simp add: d) (simp add: noOptions_def exampleEnv_def startsWith_def)
qed


lemma dispatched_headers:
  assumes "dispatched captions e w url opts stringify = Return (url', opts')"
  shows "headers opts' =
     (let h = (case headers opts of
                 None \<Rightarrow> [(''Content-Type'', ''application/json''), (''X-Forwarded-Host'', ''strapi'')]
               | Some h \<Rightarrow> h)
      in Some (if truthy (getToken w)
               then Object_assign [(''Authorization'', ''Bearer '' @ interpolate (getToken w))] h
               else h))"
  using requestBody_keeps [OF dispatched_Return(2) [OF assms]] by (simp add: headers_normalized)

text \<open>
  C6. Where \<^verbatim>\<open>options.headers\<close> is absent the headers are set to
  \<^verbatim>\<open>Content-Type: application/json\<close> and \<^verbatim>\<open>X-Forwarded-Host: strapi\<close> (before the
  credential, if there is a token, is put in front); where the caller supplies headers they
  stand in place of these defaults, and every header of the caller reaches fetch with the
  caller's value.
\<close>

theorem dispatched_default_headers:
  assumes "dispatched captions e w url opts stringify = Return (url', opts')"
  shows "(headers opts = None \<longrightarrow>
            headers (setHeaders opts) =
              Some [(''Content-Type'', ''application/json''), (''X-Forwarded-Host'', ''strapi'')] \<and>
            headers opts' =
              Some ((if truthy (getToken w)
                     then [(''Authorization'', ''Bearer '' @ interpolate (getToken w))] else []) @
                    [(''Content-Type'', ''application/json''), (''X-Forwarded-Host'', ''strapi'')])) \<and>
         (\<forall>h. headers opts = Some h \<and> distinct (map fst h) \<longrightarrow>
            headers (setHeaders opts) = Some h \<and>
            (\<exists>h'. headers opts' = Some h' \<and>
               (\<forall>k v. map_of h k = Some v \<longrightarrow> map_of h' k = Some v)))"
proof (intro conjI impI allI)
  assume "headers opts = None"
  then show "headers (setHeaders opts) =
      Some [(''Content-Type'', ''application/json''), (''X-Forwarded-Host'', ''strapi'')]"
    by (simp add: setHeaders_def Object_assign_def)
next
  assume "headers opts = None"
  then show "headers opts' =
      Some ((if truthy (getToken w)
             then [(''Authorization'', ''Bearer '' @ interpolate (getToken w))] else []) @
            [(''Content-Type'', ''application/json''), (''X-Forwarded-Host'', ''strapi'')])"
    by (simp add: dispatched_headers [OF assms] Object_assign_def)
next
  fix h assume "headers opts = Some h \<and> distinct (map fst h)"
  then show "headers (setHeaders opts) = Some h" by (simp add: setHeaders_def)
next
  fix h assume h: "headers opts = Some h \<and> distinct (map fst h)"
  show "\<exists>h'. headers opts' = Some h' \<and> (\<forall>k v. map_of h k = Some v \<longrightarrow> map_of h' k = Some v)"
    using h by (simp add: dispatched_headers [OF assms] map_of_Object_assign map_add_Some_iff)
qed

theorem dispatched_default_headers_witness:
  "dispatched collectCaptions (exampleEnv (always Hangs)) (freshWorld None) ''/users'' noOptions True =
     Return (''http://localhost:1337/users'',
             noOptions\<lparr>headers := Some [(''Content-Type'', ''application/json''), (''X-Forwarded-Host'', ''strapi'')]\<rparr>)
   \<and> (\<exists>url' opts'.
        dispatched collectCaptions (exampleEnv (always Hangs)) (freshWorld None) ''/users''
          (noOptions\<lparr>headers := Some [(''Content-Type'', ''text/plain'')]\<rparr>) True = Return (url', opts')
        \<and> headers opts' = Some [(''Content-Type'', ''text/plain'')])"
proof -
  let ?e = "exampleEnv (always Hangs)"
  let ?c = "noOptions\<lparr>headers := Some [(''Content-Type'', ''text/plain'')]\<rparr>"
  have d: "dispatched collectCaptions ?e (freshWorld None) ''/users'' ?c True =
      Return (requestURL ?e ''/users'' ?c, ?c)"
    by (simp add: dispatched_def setHeaders_def setAuthorization_def requestBody_def
        noOptions_def freshWorld_def getToken_def truthy_def truthy_body_def Let_def)
  from dispatched_default_headers [OF dispatched_noOptions [of collectCaptions "always Hangs"]]
  have 1: "headers (noOptions\<lparr>headers := Some [(''Content-Type'', ''application/json''), (''X-Forwarded-Host'', ''strapi'')]\<rparr>)
      = Some [(''Content-Type'', ''application/json''), (''X-Forwarded-Host'', ''strapi'')]"
    by (simp add: noOptions_def freshWorld_def getToken_def truthy_def)
  from dispatched_default_headers [OF d]
  have 2: "\<exists>h'. headers ?c = Some h' \<and> map_of h' ''Content-Type'' = Some ''text/plain''"
    by (simp add: noOptions_def)
  show ?thesis using 1 2 by (simp add: dispatched_noOptions d)
qed

text \<open>
  C7. When the token store yields a token, the headers handed to fetch are
  \<^verbatim>\<open>Object.assign({Authorization: `Bearer ${token}`}, options.headers)\<close>: the later
  assignment wins, so an \<^verbatim>\<open>Authorization\<close> header of the caller replaces the injected
  one, the injected one stands where the caller gave none, and every other header is kept.
\<close>

theorem dispatched_authorization:
  assumes "dispatched captions e w url opts stringify = Return (url', opts')"
    and "token w = Some t" and "t \<noteq> []"
    and "\<forall>h. headers opts = Some h \<longrightarrow> distinct (map fst h)"
  shows "\<exists>h'. headers opts' = Some h' \<and>
           h' = Object_assign [(''Authorization'', ''Bearer '' @ t)]
                  (case headers opts of
                     None \<Rightarrow> [(''Content-Type'', ''application/json''), (''X-Forwarded-Host'', ''strapi'')]
                   | Some h \<Rightarrow> h) \<and>
           map_of h' ''Authorization'' =
             (case headers opts of
                None \<Rightarrow> Some (''Bearer '' @ t)
              | Some h \<Rightarrow>
                  (case map_of h ''Authorization'' of
                     None \<Rightarrow> Some (''Bearer '' @ t)
                   | Some v \<Rightarrow> Some v)) \<and>
           (\<forall>k. k \<noteq> ''Authorization'' \<longrightarrow>
              map_of h' k =
                map_of (case headers opts of
                          None \<Rightarrow> [(''Content-Type'', ''application/json''), (''X-Forwarded-Host'', ''strapi'')]
                        | Some h \<Rightarrow> h) k)"
proof -
  define h0 where "h0 = (case headers opts of
       None \<Rightarrow> [(''Content-Type'', ''application/json''), (''X-Forwarded-Host'', ''strapi'')]
     | Some h \<Rightarrow> h)"
  define bearer where "bearer = ''Bearer '' @ t"
  have tr: "truthy (getToken w)" and tk: "interpolate (getToken w) = t"
    using assms(2,3) by (simp_all add: truthy_def getToken_def interpolate_def)
  have d: "distinct (map fst h0)" using assms(4) by (simp add: h0_def split: option.splits)
  have h': "headers opts' = Some (Object_assign [(''Authorization'', bearer)] h0)"
    using dispatched_headers [OF assms(1)] tr tk by (simp add: h0_def bearer_def)
  have m: "map_of (Object_assign [(''Authorization'', bearer)] h0) =
      map_of [(''Authorization'', bearer)] ++ map_of h0"
    by (rule map_of_Object_assign [OF d])
  have a: "map_of (Object_assign [(''Authorization'', bearer)] h0) ''Authorization'' =
      (case map_of h0 ''Authorization'' of None \<Rightarrow> Some bearer | Some v \<Rightarrow> Some v)"
    by (simp add: m map_add_def split: option.splits)
  have b: "k \<noteq> ''Authorization'' \<Longrightarrow>
      map_of (Object_assign [(''Authorization'', bearer)] h0) k = map_of h0 k" for k
    by (simp add: m map_add_def split: option.splits)
  have c: "(case map_of h0 ''Authorization'' of None \<Rightarrow> Some bearer | Some v \<Rightarrow> Some v) =
      (case headers opts of
         None \<Rightarrow> Some bearer
       | Some h \<Rightarrow> (case map_of h ''Authorization'' of None \<Rightarrow> Some bearer | Some v \<Rightarrow> Some v))"
    by (simp add: h0_def split: option.splits)
  show ?thesis
    unfolding h0_def [symmetric] bearer_def [symmetric]
    using h' a b c by simp
qed

theorem dispatched_authorization_witness:
  "(\<exists>url' opts'.
      dispatched collectCaptions (exampleEnv (always Hangs)) (freshWorld (Some ''jwt'')) ''/users'' noOptions True
        = Return (url', opts') \<and>
      headers opts' = Some [(''Authorization'', ''Bearer jwt''), (''Content-Type'', ''application/json''),
                            (''X-Forwarded-Host'', ''strapi'')])
   \<and> (\<exists>url' opts'.
      dispatched collectCaptions (exampleEnv (always Hangs)) (freshWorld (Some ''jwt'')) ''/users''
        (noOptions\<lparr>headers := Some [(''Accept'', ''text/html''), (''Authorization'', ''Basic abc'')]\<rparr>) True
        = Return (url', opts') \<and>
      headers opts' = Some [(''Authorization'', ''Basic abc''), (''Accept'', ''text/html'')])"
proof -
  let ?e = "exampleEnv (always Hangs)"
  let ?w = "freshWorld (Some ''jwt'')"
  let ?c = "noOptions\<lparr>headers := Some [(''Accept'', ''text/html''), (''Authorization'', ''Basic abc'')]\<rparr>"
  obtain u1 o1 where d1: "dispatched collectCaptions ?e ?w ''/users'' noOptions True = Return (u1, o1)"
    by (simp add: dispatched_def requestBody_def setHeaders_def setAuthorization_def
        noOptions_def truthy_body_def Let_def freshWorld_def getToken_def truthy_def)
  obtain u2 o2 where d2: "dispatched collectCaptions ?e ?w ''/users'' ?c True = Return (u2, o2)"
    by (simp add: dispatched_def requestBody_def setHeaders_def setAuthorization_def
        noOptions_def truthy_body_def Let_def freshWorld_def getToken_def truthy_def)
  have t: "token ?w = Some ''jwt''" by (simp add: freshWorld_def)
  from dispatched_authorization [OF d1 t]
  have 1: "headers o1 = Some [(''Authorization'', ''Bearer jwt''), (''Content-Type'', ''application/json''),
                            (''X-Forwarded-Host'', ''strapi'')]"
    by (simp add: noOptions_def Object_assign_def)
  from dispatched_authorization [OF d2 t]
  have 2: "headers o2 = Some [(''Authorization'', ''Basic abc''), (''Accept'', ''text/html'')]"
    by (simp add: noOptions_def Object_assign_def)
  show ?thesis using d1 d2 1 2 by simp
qed


subsection \<open>Captions of the files of a form\<close>

lemma appendCaptions_eq: "appendCaptions field entries fd = fd @ captionEntries field entries"
proof (induction entries arbitrary: fd)
  case Nil
  then show ?case by (simp add: appendCaptions_def captionEntries_def)
next
  case (Cons v entries)
  have "appendCaptions field (v # entries) fd =
      appendCaptions field entries
        (case v of FileValue f \<Rightarrow> append fd (field @ ''Captions'') (StringValue (USVString (caption f)))
                 | StringValue _ \<Rightarrow> fd)"
    by (simp add: appendCaptions_def)
  then show ?case
    by (cases v) (simp_all add: Cons.IH append_def captionEntries_def)
qed

lemma getAll_append: "getAll (fd @ xs) field = getAll fd field @ getAll xs field"
  by (simp add: getAll_def)

lemma captionEntries_append:
  "captionEntries field (xs @ ys) = captionEntries field xs @ captionEntries field ys"
  by (simp add: captionEntries_def)

lemma captionEntries_strings: "strings_only xs \<Longrightarrow> captionEntries field (getAll xs name) = []"
  by (induction xs) (auto simp add: strings_only_def captionEntries_def getAll_def split: form_value.splits)

lemma strings_only_captionEntries: "strings_only (captionEntries field entries)"
  by (induction entries) (auto simp add: strings_only_def captionEntries_def split: form_value.splits)

lemma strings_only_append: "strings_only (xs @ ys) = (strings_only xs \<and> strings_only ys)"
  by (simp add: strings_only_def)

lemma captions_fold:
  assumes "strings_only xs"
  shows "fold (\<lambda>field b. appendCaptions field (getAll b field) b) fs (fd @ xs) =
         fd @ xs @ concat (map (\<lambda>field. captionEntries field (getAll fd field)) fs)"
  using assms
proof (induction fs arbitrary: xs)
  case Nil
  then show ?case by simp
next
  case (Cons f fs)
  have 1: "appendCaptions f (getAll (fd @ xs) f) (fd @ xs) = fd @ (xs @ captionEntries f (getAll fd f))"
    using Cons.prems
    by (simp add: appendCaptions_eq getAll_append captionEntries_append captionEntries_strings)
  have 2: "strings_only (xs @ captionEntries f (getAll fd f))"
    using Cons.prems by (simp add: strings_only_append strings_only_captionEntries)
  show ?case
    by (simp add: 1 Cons.IH [OF 2])
qed

lemma addCaptions_eq:
  "addCaptions fd = fd @ concat (map (\<lambda>field. captionEntries field (getAll fd field)) (uniq (fileFields fd)))"
  using captions_fold [of "[]" "uniq (fileFields fd)" fd]
  by (simp add: addCaptions_def strings_only_def)

lemma uniq_fold:
  "distinct seen \<Longrightarrow>
     distinct (fold (\<lambda>x seen. if x \<in> set seen then seen else seen @ [x]) xs seen) \<and>
     set (fold (\<lambda>x seen. if x \<in> set seen then seen else seen @ [x]) xs seen) = set seen \<union> set xs"
  by (induction xs arbitrary: seen) auto

lemma distinct_uniq: "distinct (uniq xs)" and set_uniq: "set (uniq xs) = set xs"
  using uniq_fold [of "[]" xs] by (simp_all add: uniq_def)

lemma getAll_captionEntries:
  "getAll (captionEntries field entries) name =
     (if name = field @ ''Captions''
      then [StringValue (USVString (caption f)). FileValue f \<leftarrow> entries] else [])"
  by (induction entries) (auto simp add: captionEntries_def getAll_def split: form_value.splits)

lemma getAll_concat_other:
  assumes "\<forall>field \<in> set fs. name \<noteq> field @ ''Captions''"
  shows "getAll (concat (map (\<lambda>field. captionEntries field (F field)) fs)) name = []"
  using assms by (induction fs) (simp_all add: getAll_append getAll_captionEntries, simp add: getAll_def)

lemma getAll_concat_field:
  assumes "distinct fs" and "field \<in> set fs"
  shows "getAll (concat (map (\<lambda>field. captionEntries field (F field)) fs)) (field @ ''Captions'') =
         [StringValue (USVString (caption f)). FileValue f \<leftarrow> F field]"
  using assms
proof (induction fs)
  case Nil
  then show ?case by simp
next
  case (Cons g fs)
  show ?case
  proof (cases "g = field")
    case True
    with Cons.prems have "\<forall>h \<in> set fs. field @ ''Captions'' \<noteq> h @ ''Captions''" by auto
    from getAll_concat_other [OF this, of F] True show ?thesis
      by (simp add: getAll_append getAll_captionEntries)
  next
    case False
    with Cons show ?thesis by (simp add: getAll_append getAll_captionEntries)
  qed
qed

lemma collectCaptions_keeps: "collectCaptions fd = fd"
proof -
  have "fold (\<lambda>field b. b) fs b = b" for fs :: "string list" and b :: formdata
    by (induction fs) simp_all
  then show ?thesis by (simp add: collectCaptions_def)
qed

text \<open>
  C4, as the copy of \<^verbatim>\<open>request.js\<close> that appends the captions has it (the copy whose
  inner loop calls \<^verbatim>\<open>options.body.append\<close>; the copy under
  \<^verbatim>\<open>packages/strapi-helper-plugin\<close> is not covered here and is treated below). Without
  \<^verbatim>\<open>stringify\<close> and with a \<^verbatim>\<open>FormData\<close> body, that copy appends, after all the
  entries of the body and for every field that has a file, one entry named
  \<^verbatim>\<open><field>Captions\<close> per file of that field, in order, carrying the caption of the file
  as a string. No entry is changed or removed; a field that is not \<^verbatim>\<open><field>Captions\<close>
  of a field with a file reads as before, and one that is reads its former entries followed
  by the captions.
\<close>

theorem request_appends_captions:
  assumes "dispatched addCaptions e w url opts False = Return (url', opts')"
    and "body opts = Some (Form fd)"
  shows "body opts' = Some (Form (addCaptions fd)) \<and>
         addCaptions fd =
           fd @ concat (map (\<lambda>field. [(field @ ''Captions'', StringValue (USVString (caption f))).
                                          FileValue f \<leftarrow> getAll fd field])
                        (uniq (fileFields fd))) \<and>
         (\<forall>field \<in> set (fileFields fd).
            getAll (addCaptions fd) (field @ ''Captions'') =
              getAll fd (field @ ''Captions'') @
              [StringValue (USVString (caption f)). FileValue f \<leftarrow> getAll fd field]) \<and>
         (\<forall>name. (\<forall>field \<in> set (fileFields fd). name \<noteq> field @ ''Captions'') \<longrightarrow>
            getAll (addCaptions fd) name = getAll fd name)"
proof (intro conjI ballI allI impI)
  have "requestBody addCaptions e False (setAuthorization w (setHeaders opts)) = Return opts'"
    by (rule dispatched_Return(2) [OF assms(1)])
  then show "body opts' = Some (Form (addCaptions fd))"
    using assms(2) by (auto simp add: requestBody_def body_normalized truthy_body_def)
next
  show "addCaptions fd =
           fd @ concat (map (\<lambda>field. [(field @ ''Captions'', StringValue (USVString (caption f))).
                                          FileValue f \<leftarrow> getAll fd field])
                        (uniq (fileFields fd)))"
    by (simp add: addCaptions_eq captionEntries_def)
next
  fix field assume "field \<in> set (fileFields fd)"
  then have "field \<in> set (uniq (fileFields fd))" by (simp add: set_uniq)
  from getAll_concat_field [OF distinct_uniq this, of "getAll fd"]
  show "getAll (addCaptions fd) (field @ ''Captions'') =
              getAll fd (field @ ''Captions'') @
              [StringValue (USVString (caption f)). FileValue f \<leftarrow> getAll fd field]"
    by (simp add: addCaptions_eq getAll_append)
next
  fix name assume "\<forall>field \<in> set (fileFields fd). name \<noteq> field @ ''Captions''"
  then have "\<forall>field \<in> set (uniq (fileFields fd)). name \<noteq> field @ ''Captions''"
    by (simp add: set_uniq)
  from getAll_concat_other [OF this, of "getAll fd"]
  show "getAll (addCaptions fd) name = getAll fd name"
    by (simp add: addCaptions_eq getAll_append)
qed


text \<open>
  The copy under \<^verbatim>\<open>packages/strapi-helper-plugin\<close> hands the body to fetch as it
  came: its loops push each entry and its caption to a local array, the write to the body
  is commented out, and no \<^verbatim>\<open><field>Captions\<close> entry is ever appended. Its own comment
  announces the captions and the other copy appends them: this copy misses them.
\<close>

lemma helper_plugin_keeps_body:
  assumes "dispatched collectCaptions e w url opts False = Return (url', opts')"
    and "body opts = Some (Form fd)"
  shows "body opts' = Some (Form fd)"
proof -
  have "requestBody collectCaptions e False (setAuthorization w (setHeaders opts)) = Return opts'"
    by (rule dispatched_Return(2) [OF assms(1)])
  then show ?thesis
    using assms(2) by (auto simp add: requestBody_def body_normalized truthy_body_def collectCaptions_keeps)
qed

lemma dispatched_form:
  "dispatched captions (exampleEnv answers) (freshWorld None) ''/upload''
     (noOptions\<lparr>body := Some (Form fd)\<rparr>) False =
   Return (''http://localhost:1337/upload'',
           noOptions\<lparr>headers := Some [(''Content-Type'', ''application/json''), (''X-Forwarded-Host'', ''strapi'')],
                     body := Some (Form (captions fd))\<rparr>)"
  by (simp add: dispatched_def setHeaders_def setAuthorization_def requestBody_def requestURL_def
      noOptions_def exampleEnv_def freshWorld_def getToken_def truthy_def truthy_body_def
      Object_assign_def startsWith_def Let_def)

text \<open>
  The helper-plugin copy on a form with two files under \<^verbatim>\<open>media\<close>: the body reaches
  fetch with its three entries and no caption.
\<close>

lemma helper_plugin_appends_nothing:
  "dispatched collectCaptions (exampleEnv (always Hangs)) (freshWorld None) ''/upload''
     (noOptions\<lparr>body := Some (Form
        [(''title'', StringValue ''Hello''),
         (''media'', FileValue \<lparr>file_name = ''a.png'', caption = Some ''A''\<rparr>),
         (''media'', FileValue \<lparr>file_name = ''b.png'', caption = None\<rparr>)])\<rparr>) False =
   Return (''http://localhost:1337/upload'',
           noOptions\<lparr>headers := Some [(''Content-Type'', ''application/json''), (''X-Forwarded-Host'', ''strapi'')],
                     body := Some (Form
        [(''title'', StringValue ''Hello''),
         (''media'', FileValue \<lparr>file_name = ''a.png'', caption = Some ''A''\<rparr>),
         (''media'', FileValue \<lparr>file_name = ''b.png'', caption = None\<rparr>)])\<rparr>)"
  by (simp add: dispatched_form collectCaptions_keeps)

theorem request_appends_captions_witness:
  "dispatched addCaptions (exampleEnv (always Hangs)) (freshWorld None) ''/upload''
     (noOptions\<lparr>body := Some (Form
        [(''title'', StringValue ''Hello''),
         (''media'', FileValue \<lparr>file_name = ''a.png'', caption = Some ''A''\<rparr>),
         (''media'', FileValue \<lparr>file_name = ''b.png'', caption = None\<rparr>)])\<rparr>) False =
   Return (''http://localhost:1337/upload'',
           noOptions\<lparr>headers := Some [(''Content-Type'', ''application/json''), (''X-Forwarded-Host'', ''strapi'')],
                     body := Some (Form
        [(''title'', StringValue ''Hello''),
         (''media'', FileValue \<lparr>file_name = ''a.png'', caption = Some ''A''\<rparr>),
         (''media'', FileValue \<lparr>file_name = ''b.png'', caption = None\<rparr>),
         (''mediaCaptions'', StringValue ''A''),
         (''mediaCaptions'', StringValue ''undefined'')])\<rparr>)"
proof -
  let ?fd = "[(''title'', StringValue ''Hello''),
         (''media'', FileValue \<lparr>file_name = ''a.png'', caption = Some ''A''\<rparr>),
         (''media'', FileValue \<lparr>file_name = ''b.png'', caption = None\<rparr>)]"
  have b: "body (noOptions\<lparr>body := Some (Form ?fd)\<rparr>) = Some (Form ?fd)" by simp
  have u: "uniq (fileFields ?fd) = [''media'']" by (simp add: uniq_def fileFields_def)
  from request_appends_captions [OF dispatched_form [of addCaptions "always Hangs"] b]
  have "addCaptions ?fd = ?fd @ [(''mediaCaptions'', StringValue ''A''),
         (''mediaCaptions'', StringValue ''undefined'')]"
    by (simp add: u getAll_def USVString_def)
  then show ?thesis by (simp add: dispatched_form)
qed

text \<open>
  C4 as it was stated fails for a field without a file whose name is that of a caption
  field: \<^verbatim>\<open>mediaCaptions\<close> holds no file, and the caption of the file of
  \<^verbatim>\<open>media\<close> is appended to it.
\<close>

theorem captions_collision_counterexample:
  "fileFields
     [(''media'', FileValue \<lparr>file_name = ''a.png'', caption = Some ''A''\<rparr>),
      (''mediaCaptions'', StringValue ''old'')] = [''media''] \<and>
   getAll
     [(''media'', FileValue \<lparr>file_name = ''a.png'', caption = Some ''A''\<rparr>),
      (''mediaCaptions'', StringValue ''old'')] ''mediaCaptions'' = [StringValue ''old''] \<and>
   dispatched addCaptions (exampleEnv (always Hangs)) (freshWorld None) ''/upload''
     (noOptions\<lparr>body := Some (Form
        [(''media'', FileValue \<lparr>file_name = ''a.png'', caption = Some ''A''\<rparr>),
         (''mediaCaptions'', StringValue ''old'')])\<rparr>) False =
   Return (''http://localhost:1337/upload'',
           noOptions\<lparr>headers := Some [(''Content-Type'', ''application/json''), (''X-Forwarded-Host'', ''strapi'')],
                     body := Some (Form
        [(''media'', FileValue \<lparr>file_name = ''a.png'', caption = Some ''A''\<rparr>),
         (''mediaCaptions'', StringValue ''old''),
         (''mediaCaptions'', StringValue ''A'')])\<rparr>)"
  by (simp add: dispatched_form)
    (simp add: addCaptions_def appendCaptions_def append_def uniq_def fileFields_def getAll_def USVString_def)


end
